theory Spec2Isabelle
  imports Main "HOL-Library.Sublist"
begin

section \<open>crouton\_client/async.py: the asynchronous CRUD client\<close>

text \<open>
  The module defines one class, \<^verbatim>\<open>AsyncCroutonClient\<close>, with a constructor, the URL
  builder \<^verbatim>\<open>_build_url\<close> and the four operations \<^verbatim>\<open>get\<close>, \<^verbatim>\<open>post\<close>, \<^verbatim>\<open>put\<close> and
  \<^verbatim>\<open>delete\<close>. Python strings are modelled as \<^typ>\<open>string\<close>, read as the UTF-8 bytes of
  the text: every character the code looks for (\<^verbatim>\<open>/\<close>, \<^verbatim>\<open>?\<close>) is ASCII, and an ASCII byte
  never occurs inside a multi-byte UTF-8 sequence, so stripping and searching on bytes
  agree with Python's on code points. \<^verbatim>\<open>Optional[str]\<close> is \<^typ>\<open>string option\<close>.
  The calls to \<^verbatim>\<open>logger.info\<close> and \<^verbatim>\<open>logger.error\<close> write to the process log only;
  they do not touch the client, the arguments or the result and are left out.
\<close>

subsection \<open>Python built-ins used by the module\<close>

text \<open>\<^verbatim>\<open>str.lstrip(chars)\<close>, \<^verbatim>\<open>str.rstrip(chars)\<close> and \<^verbatim>\<open>str.strip(chars)\<close>: remove every
  leading (trailing, both) character that belongs to \<^verbatim>\<open>chars\<close>.\<close>

definition lstrip :: "string \<Rightarrow> string \<Rightarrow> string" where
  "lstrip chars s = dropWhile (\<lambda>c. c \<in> set chars) s"

definition rstrip :: "string \<Rightarrow> string \<Rightarrow> string" where
  "rstrip chars s = rev (dropWhile (\<lambda>c. c \<in> set chars) (rev s))"

definition strip :: "string \<Rightarrow> string \<Rightarrow> string" where
  "strip chars s = rstrip chars (lstrip chars s)"

text \<open>Truth value of an \<^verbatim>\<open>Optional[str]\<close> in a condition: \<^verbatim>\<open>None\<close> and the empty
  string are false.\<close>

fun truthy :: "string option \<Rightarrow> bool" where
  "truthy None = False"
| "truthy (Some s) = (s \<noteq> [])"

text \<open>\<^verbatim>\<open>str(n)\<close> of an integer, as the f-strings of the error messages format
  \<^verbatim>\<open>res.status\<close>: decimal digits, a minus sign for a negative number.\<close>

definition digit_char :: "nat \<Rightarrow> char" where
  "digit_char d = ''0123456789'' ! d"

fun str_nat :: "nat \<Rightarrow> string" where
  "str_nat n = (if n < 10 then [digit_char n] else str_nat (n div 10) @ [digit_char (n mod 10)])"

definition str_int :: "int \<Rightarrow> string" where
  "str_int i = (if i < 0 then CHR ''-'' # str_nat (nat (- i)) else str_nat (nat i))"

text \<open>\<^verbatim>\<open>sep.join(parts)\<close>.\<close>

fun join :: "string \<Rightarrow> string list \<Rightarrow> string" where
  "join sep [] = []"
| "join sep [x] = x"
| "join sep (x # y # ys) = x @ sep @ join sep (y # ys)"

subsection \<open>\<^verbatim>\<open>urllib.parse.urlencode\<close>\<close>

text \<open>
  \<^verbatim>\<open>urlencode(query)\<close> of the standard library, for a mapping from strings to strings
  and with its default arguments: every key and value goes through \<^verbatim>\<open>quote_plus\<close>
  with no extra safe characters, the pairs are written \<^verbatim>\<open>key=value\<close> in the mapping's
  order and joined by \<^verbatim>\<open>&\<close>. \<^verbatim>\<open>quote_plus\<close> keeps the letters, the digits and
  \<^verbatim>\<open>_.-~\<close>, writes a space as \<^verbatim>\<open>+\<close> and every other byte as \<^verbatim>\<open>%XX\<close> with upper-case
  hexadecimal digits.
\<close>

definition always_safe :: string where
  "always_safe = ''ABCDEFGHIJKLMNOPQRSTUVWXYZabcdefghijklmnopqrstuvwxyz0123456789_.-~''"

definition hex_digit :: "nat \<Rightarrow> char" where
  "hex_digit d = ''0123456789ABCDEF'' ! d"

definition quote_byte :: "char \<Rightarrow> string" where
  "quote_byte c =
     (if c \<in> set always_safe then [c]
      else if c = CHR '' '' then ''+''
      else [CHR ''%'', hex_digit (of_char c div 16), hex_digit (of_char c mod 16)])"

definition quote_plus :: "string \<Rightarrow> string" where
  "quote_plus s = concat (map quote_byte s)"

definition urlencode :: "(string \<times> string) list \<Rightarrow> string" where
  "urlencode query = join ''&'' (map (\<lambda>(k, v). quote_plus k @ ''='' @ quote_plus v) query)"

subsection \<open>Data\<close>

text \<open>JSON values: what \<^verbatim>\<open>res.json()\<close> returns and what the entries of a
  \<^verbatim>\<open>data_obj\<close> hold. A \<^verbatim>\<open>data_obj\<close> itself (\<^verbatim>\<open>Dict[str, Any]\<close>) is a map from keys
  to values.\<close>

datatype json =
    JNull
  | JBool bool
  | JNum int
  | JStr string
  | JArr "json list"
  | JObj "(string \<times> json) list"

type_synonym pydict = "string \<rightharpoonup> json"

text \<open>The two attributes \<^verbatim>\<open>__init__\<close> sets on the client.\<close>

record client =
  API_ROOT :: string
  ACCESS_STRING :: "string option"

text \<open>What goes over the wire: the verb, the URL and, for \<^verbatim>\<open>post\<close> and \<^verbatim>\<open>put\<close>, the
  mapping passed as \<^verbatim>\<open>json=\<close>.\<close>

datatype http_method = GET | POST | PUT | DELETE

record http_request =
  req_method :: http_method
  req_url :: string
  req_json :: "pydict option"

text \<open>
  The response object as the code reads it: \<^verbatim>\<open>res.status\<close>, the text \<^verbatim>\<open>res.text()\<close>
  returns and the outcome of \<^verbatim>\<open>res.json()\<close>, which is the decoded value or the
  decoder's failure. A request that gets no response at all (connection, DNS or TLS
  failure) is \<open>Unreachable\<close>.
\<close>

record response =
  res_status :: int
  res_text :: string
  res_json :: "string + json"

datatype reply = Unreachable string | Responded response

text \<open>
  The exceptions an operation can end with: the \<^verbatim>\<open>ValueError\<close> the module raises
  itself, with its message, and the two that pass through from the HTTP library.
\<close>

datatype error = ValueError string | ClientError string | JSONDecodeError string

text \<open>
  The surroundings of one call: the backend's answer to a request, and the string
  \<^verbatim>\<open>UUIDGenerator().create()\<close> returns when it is called (it comes from the sibling
  module \<^verbatim>\<open>UUID\<close>, which is outside this development, so its result is taken as given).
\<close>

record env =
  http :: "http_request \<Rightarrow> reply"
  uuid_create :: string

text \<open>
  The mutable world an operation runs in: the client object \<^verbatim>\<open>self\<close>, the store of
  dictionary objects (a \<^verbatim>\<open>data_obj\<close> argument is a reference into it, shared with the
  caller) and the requests sent so far.
\<close>

type_synonym addr = nat

record state =
  self :: client
  heap :: "addr \<Rightarrow> pydict"
  wire :: "http_request list"

subsection \<open>The class\<close>

text \<open>\<^verbatim>\<open>__init__\<close> (lines 12--14).\<close>

definition init :: "string \<Rightarrow> string option \<Rightarrow> client" where
  "init api_root access_string =
     \<lparr>API_ROOT = rstrip ''/'' api_root, ACCESS_STRING = access_string\<rparr>"

text \<open>\<^verbatim>\<open>_build_url\<close> (lines 16--36). \<^verbatim>\<open>query_params\<close> is an optional mapping, kept as
  the list of its items in order; an empty mapping is false in \<^verbatim>\<open>if query_params\<close>.\<close>

definition build_url ::
  "client \<Rightarrow> string \<Rightarrow> string option \<Rightarrow> (string \<times> string) list option \<Rightarrow> string" where
  "build_url c resource item_id query_params =
     (let url = API_ROOT c @ ''/'' @ strip ''/'' resource;
          url = (if truthy item_id then url @ ''/'' @ the item_id else url);
          url = (case query_params of
                   None \<Rightarrow> url
                 | Some q \<Rightarrow> if q \<noteq> [] then url @ ''?'' @ urlencode q else url);
          url = (if truthy (ACCESS_STRING c)
                 then url @ (if CHR ''?'' \<in> set url then ''&'' else ''?'')
                          @ ''token='' @ strip ''?'' (the (ACCESS_STRING c))
                 else url)
      in url)"

text \<open>
  The block every operation ends with (lines 53--59, 72--78, 88--94, 104--110), which
  differs only in the verb written into the message: status 200 returns
  \<^verbatim>\<open>res.json()\<close>, any other status raises \<^verbatim>\<open>ValueError\<close> with the status and
  \<^verbatim>\<open>res.text()\<close>.
\<close>

definition handle_reply :: "string \<Rightarrow> reply \<Rightarrow> error + json" where
  "handle_reply verb r =
     (case r of
        Unreachable e \<Rightarrow> Inl (ClientError e)
      | Responded res \<Rightarrow>
          if res_status res = 200
          then (case res_json res of Inl e \<Rightarrow> Inl (JSONDecodeError e) | Inr v \<Rightarrow> Inr v)
          else Inl (ValueError (verb @ '' request failed with status ''
                                  @ str_int (res_status res) @ '': '' @ res_text res)))"

text \<open>Sending a request: it is recorded on the wire and the backend's reply is handled.\<close>

definition send :: "env \<Rightarrow> string \<Rightarrow> http_request \<Rightarrow> state \<Rightarrow> (error + json) \<times> state" where
  "send e verb req s = (handle_reply verb (http e req), s\<lparr>wire := wire s @ [req]\<rparr>)"

text \<open>Line 48 of \<^verbatim>\<open>get\<close>:
  \<^verbatim>\<open>{filter_key: filter_value} if filter_key and filter_value else None\<close>.\<close>

definition filter_params :: "string option \<Rightarrow> string option \<Rightarrow> (string \<times> string) list option" where
  "filter_params filter_key filter_value =
     (if truthy filter_key \<and> truthy filter_value
      then Some [(the filter_key, the filter_value)] else None)"

text \<open>\<^verbatim>\<open>get\<close> (lines 38--59).\<close>

definition get ::
  "env \<Rightarrow> string \<Rightarrow> string option \<Rightarrow> string option \<Rightarrow> string option \<Rightarrow> state
     \<Rightarrow> (error + json) \<times> state" where
  "get e resource item_id filter_key filter_value s =
     (let query_params = filter_params filter_key filter_value;
          url = build_url (self s) resource item_id query_params
      in send e ''GET'' \<lparr>req_method = GET, req_url = url, req_json = None\<rparr> s)"

text \<open>\<^verbatim>\<open>post\<close> (lines 61--78). \<^verbatim>\<open>data_obj\<close> is the address of the caller's dictionary;
  the assignment \<^verbatim>\<open>data_obj['id'] = ...\<close> writes to that object.\<close>

definition post :: "env \<Rightarrow> string \<Rightarrow> addr \<Rightarrow> state \<Rightarrow> (error + json) \<times> state" where
  "post e resource data_obj s =
     (let s = (if heap s data_obj ''id'' = None
               then s\<lparr>heap := (heap s)(data_obj := (heap s data_obj)(''id'' \<mapsto> JStr (uuid_create e)))\<rparr>
               else s);
          url = build_url (self s) resource None None
      in send e ''POST''
           \<lparr>req_method = POST, req_url = url, req_json = Some (heap s data_obj)\<rparr> s)"

text \<open>\<^verbatim>\<open>put\<close> (lines 80--94).\<close>

definition put :: "env \<Rightarrow> string \<Rightarrow> addr \<Rightarrow> string option \<Rightarrow> state \<Rightarrow> (error + json) \<times> state" where
  "put e resource data_obj item_id s =
     (let url = build_url (self s) resource item_id None
      in send e ''PUT''
           \<lparr>req_method = PUT, req_url = url, req_json = Some (heap s data_obj)\<rparr> s)"

text \<open>\<^verbatim>\<open>delete\<close> (lines 96--110).\<close>

definition delete :: "env \<Rightarrow> string \<Rightarrow> string option \<Rightarrow> state \<Rightarrow> (error + json) \<times> state" where
  "delete e resource item_id s =
     (let url = build_url (self s) resource item_id None
      in send e ''DELETE'' \<lparr>req_method = DELETE, req_url = url, req_json = None\<rparr> s)"

subsection \<open>The query string of a URL\<close>

text \<open>The properties speak of the query string of a URL. In the generic URL syntax
  (RFC 3986, and what \<^verbatim>\<open>urllib.parse.urlsplit\<close> separates) the fragment starts at the
  first \<^verbatim>\<open>#\<close>, and in what precedes it the query string is the text after the first
  \<^verbatim>\<open>?\<close>. A URL with no \<^verbatim>\<open>?\<close> before its fragment has no query string.\<close>

definition url_query :: "string \<Rightarrow> string option" where
  "url_query url =
     (case dropWhile (\<lambda>c. c \<noteq> CHR ''?'') (takeWhile (\<lambda>c. c \<noteq> CHR ''#'') url) of
        [] \<Rightarrow> None | _ # q \<Rightarrow> Some q)"

subsection \<open>Fixtures for the examples\<close>

text \<open>A mocked backend that answers every request with the same status, body text and
  decoding outcome; a world with one client and no request sent yet.\<close>

definition mock :: "int \<Rightarrow> string \<Rightarrow> string + json \<Rightarrow> env" where
  "mock st body js =
     \<lparr>http = (\<lambda>_. Responded \<lparr>res_status = st, res_text = body, res_json = js\<rparr>),
      uuid_create = ''123e4567-e89b-42d3-a456-426614174000''\<rparr>"

definition fresh :: "client \<Rightarrow> state" where
  "fresh c = \<lparr>self = c, heap = (\<lambda>_. Map.empty), wire = []\<rparr>"

definition not_found :: response where
  "not_found = \<lparr>res_status = 404, res_text = ''not found'', res_json = Inl ''Expecting value''\<rparr>"



definition named_x :: state where
  "named_x = \<lparr>self = init ''http://h/api'' None,
              heap = (\<lambda>_. Map.empty)(0 := [''name'' \<mapsto> JStr ''x'']),
              wire = []\<rparr>"

section \<open>Properties\<close>

subsection \<open>Stripping\<close>

lemma rstrip_no_trailing: "rstrip chars s = [] \<or> last (rstrip chars s) \<notin> set chars"
proof (cases "dropWhile (\<lambda>c. c \<in> set chars) (rev s)")
  case Nil
  then show ?thesis by (simp add: rstrip_def)
next
  case (Cons a as)
  then have "a \<notin> set chars"
    using hd_dropWhile [of "\<lambda>c. c \<in> set chars" "rev s"] by simp
  with Cons show ?thesis by (simp add: rstrip_def)
qed

lemma lstrip_replicate:
  assumes "core = [] \<or> hd core \<noteq> c"
  shows "lstrip [c] (replicate i c @ core) = core"
proof -
  have "dropWhile (\<lambda>x. x \<in> set [c]) (replicate i c @ core) = dropWhile (\<lambda>x. x \<in> set [c]) core"
    by (rule dropWhile_append2) simp
  also have "\<dots> = core"
    using assms by (cases core) auto
  finally show ?thesis by (simp add: lstrip_def)
qed

lemma rstrip_replicate:
  assumes "core = [] \<or> last core \<noteq> c"
  shows "rstrip [c] (core @ replicate j c) = core"
proof -
  have "dropWhile (\<lambda>x. x \<in> set [c]) (rev (core @ replicate j c))
        = dropWhile (\<lambda>x. x \<in> set [c]) (replicate j c @ rev core)"
    by simp
  also have "\<dots> = dropWhile (\<lambda>x. x \<in> set [c]) (rev core)"
    by (rule dropWhile_append2) simp
  also have "\<dots> = rev core"
    using assms by (cases core rule: rev_cases) auto
  finally show ?thesis by (simp add: rstrip_def)
qed

lemma strip_replicate:
  assumes "core = [] \<or> (hd core \<noteq> c \<and> last core \<noteq> c)"
  shows "strip [c] (replicate i c @ core @ replicate j c) = core"
proof (cases "core = []")
  case True
  have "lstrip [c] (replicate (i + j) c @ []) = []"
    by (rule lstrip_replicate) simp
  then have "lstrip [c] (replicate i c @ core @ replicate j c) = []"
    using True by (simp add: replicate_add)
  then show ?thesis using True by (simp add: strip_def rstrip_def)
next
  case False
  with assms have h: "hd core \<noteq> c" and l: "last core \<noteq> c" by auto
  have "hd (core @ replicate j c) \<noteq> c" using False h by simp
  then have "lstrip [c] (replicate i c @ (core @ replicate j c)) = core @ replicate j c"
    by (intro lstrip_replicate) simp
  moreover have "rstrip [c] (core @ replicate j c) = core"
    using l by (intro rstrip_replicate) simp
  ultimately show ?thesis by (simp add: strip_def)
qed

subsection \<open>Outcome of a request\<close>

lemma fst_send: "fst (send e verb req s) = handle_reply verb (http e req)"
  by (simp add: send_def)

lemma wire_send: "wire (snd (send e verb req s)) = wire s @ [req]"
  by (simp add: send_def)

lemma last_wire_send: "last (wire (snd (send e verb req s))) = req"
  by (simp add: send_def)

lemma get_outcome:
  "fst (get e r i fk fv s) = handle_reply ''GET'' (http e (last (wire (snd (get e r i fk fv s)))))"
  by (simp add: get_def Let_def fst_send last_wire_send)

lemma post_outcome:
  "fst (post e r d s) = handle_reply ''POST'' (http e (last (wire (snd (post e r d s)))))"
  by (simp add: post_def Let_def fst_send last_wire_send)

lemma put_outcome:
  "fst (put e r d i s) = handle_reply ''PUT'' (http e (last (wire (snd (put e r d i s)))))"
  by (simp add: put_def Let_def fst_send last_wire_send)

lemma delete_outcome:
  "fst (delete e r i s) = handle_reply ''DELETE'' (http e (last (wire (snd (delete e r i s)))))"
  by (simp add: delete_def Let_def fst_send last_wire_send)

lemma handle_reply_failed:
  "res_status res \<noteq> 200 \<Longrightarrow>
   handle_reply verb (Responded res)
     = Inl (ValueError (verb @ '' request failed with status '' @ str_int (res_status res)
                          @ '': '' @ res_text res))"
  by (simp add: handle_reply_def)

lemma str_int_404: "str_int 404 = ''404''"
  by (simp add: str_int_def digit_char_def)

text \<open>
  C1. Whatever the operation, when the backend answers the request it sends with a status
  other than 200, the operation raises \<^verbatim>\<open>ValueError\<close> with the message
  \<^verbatim>\<open><VERB> request failed with status <status>: <body text>\<close>: the message carries the
  HTTP method, the status code and the raw body text. With status 404 and body
  \<^verbatim>\<open>not found\<close>, \<^verbatim>\<open>get\<close> fails with
  \<^verbatim>\<open>GET request failed with status 404: not found\<close>.
\<close>

theorem request_failed_error:
  assumes "res_status res \<noteq> 200"
  shows
    "(http e (last (wire (snd (get e r i fk fv s)))) = Responded res \<longrightarrow>
        fst (get e r i fk fv s)
          = Inl (ValueError (''GET request failed with status '' @ str_int (res_status res)
                               @ '': '' @ res_text res)))
     \<and> (http e (last (wire (snd (post e r d s)))) = Responded res \<longrightarrow>
        fst (post e r d s)
          = Inl (ValueError (''POST request failed with status '' @ str_int (res_status res)
                               @ '': '' @ res_text res)))
     \<and> (http e (last (wire (snd (put e r d i s)))) = Responded res \<longrightarrow>
        fst (put e r d i s)
          = Inl (ValueError (''PUT request failed with status '' @ str_int (res_status res)
                               @ '': '' @ res_text res)))
     \<and> (http e (last (wire (snd (delete e r i s)))) = Responded res \<longrightarrow>
        fst (delete e r i s)
          = Inl (ValueError (''DELETE request failed with status '' @ str_int (res_status res)
                               @ '': '' @ res_text res)))
     \<and> (res_status res = 404 \<and> res_text res = ''not found''
          \<and> http e (last (wire (snd (get e r i fk fv s)))) = Responded res \<longrightarrow>
        fst (get e r i fk fv s)
          = Inl (ValueError ''GET request failed with status 404: not found''))"
proof -
  note f = handle_reply_failed [OF assms]
  have g: "http e (last (wire (snd (get e r i fk fv s)))) = Responded res \<Longrightarrow>
        fst (get e r i fk fv s)
          = Inl (ValueError (''GET request failed with status '' @ str_int (res_status res)
                               @ '': '' @ res_text res))"
    using get_outcome [of e r i fk fv s] f [of "''GET''"] by simp
  have p: "http e (last (wire (snd (post e r d s)))) = Responded res \<Longrightarrow>
        fst (post e r d s)
          = Inl (ValueError (''POST request failed with status '' @ str_int (res_status res)
                               @ '': '' @ res_text res))"
    using post_outcome [of e r d s] f [of "''POST''"] by simp
  have u: "http e (last (wire (snd (put e r d i s)))) = Responded res \<Longrightarrow>
        fst (put e r d i s)
          = Inl (ValueError (''PUT request failed with status '' @ str_int (res_status res)
                               @ '': '' @ res_text res))"
    using put_outcome [of e r d i s] f [of "''PUT''"] by simp
  have dl: "http e (last (wire (snd (delete e r i s)))) = Responded res \<Longrightarrow>
        fst (delete e r i s)
          = Inl (ValueError (''DELETE request failed with status '' @ str_int (res_status res)
                               @ '': '' @ res_text res))"
    using delete_outcome [of e r i s] f [of "''DELETE''"] by simp
  have ex: "res_status res = 404 \<and> res_text res = ''not found''
          \<and> http e (last (wire (snd (get e r i fk fv s)))) = Responded res \<Longrightarrow>
        fst (get e r i fk fv s)
          = Inl (ValueError ''GET request failed with status 404: not found'')"
    using g str_int_404 by simp
  from g p u dl ex show ?thesis by blast
qed

theorem request_failed_error_witness:
  "fst (get (mock 404 ''not found'' (Inl ''Expecting value'')) ''users'' (Some ''7'') None None
          (fresh (init ''http://h/api/'' None)))
     = Inl (ValueError ''GET request failed with status 404: not found'')
   \<and> fst (post (mock 404 ''not found'' (Inl ''Expecting value'')) ''users'' 0
          (fresh (init ''http://h/api/'' None)))
     = Inl (ValueError ''POST request failed with status 404: not found'')
   \<and> fst (put (mock 404 ''not found'' (Inl ''Expecting value'')) ''users'' 0 (Some ''7'')
          (fresh (init ''http://h/api/'' None)))
     = Inl (ValueError ''PUT request failed with status 404: not found'')
   \<and> fst (delete (mock 404 ''not found'' (Inl ''Expecting value'')) ''users'' (Some ''7'')
          (fresh (init ''http://h/api/'' None)))
     = Inl (ValueError ''DELETE request failed with status 404: not found'')"
  using request_failed_error [of not_found "mock 404 ''not found'' (Inl ''Expecting value'')"
      "''users''" "Some ''7''" None None "fresh (init ''http://h/api/'' None)" 0]
  by (simp add: not_found_def mock_def str_int_404)





subsection \<open>The client and the caller's objects\<close>

lemma self_send: "self (snd (send e verb req s)) = self s"
  by (simp add: send_def)

lemma heap_send: "heap (snd (send e verb req s)) = heap s"
  by (simp add: send_def)

text \<open>
  C8. After construction the client holds the API root without its trailing slashes (what
  is stored never ends with a slash) and the access token as given, and each of \<^verbatim>\<open>get\<close>, \<^verbatim>\<open>post\<close>, \<^verbatim>\<open>put\<close> and \<^verbatim>\<open>delete\<close> leaves
  the client as it found it.
\<close>

theorem configuration_read_only:
  "API_ROOT (init root tok) = rstrip ''/'' root
   \<and> ACCESS_STRING (init root tok) = tok
   \<and> (API_ROOT (init root tok) = [] \<or> last (API_ROOT (init root tok)) \<noteq> CHR ''/'')
   \<and> (root0 = [] \<or> last root0 \<noteq> CHR ''/'' \<longrightarrow>
        API_ROOT (init (root0 @ replicate k CHR ''/'') tok) = root0)
   \<and> self (snd (get e r i fk fv s)) = self s
   \<and> self (snd (post e r d s)) = self s
   \<and> self (snd (put e r d i s)) = self s
   \<and> self (snd (delete e r i s)) = self s"
proof -
  have a: "API_ROOT (init root tok) = rstrip ''/'' root \<and> ACCESS_STRING (init root tok) = tok"
    by (simp add: init_def)
  have n: "API_ROOT (init root tok) = [] \<or> last (API_ROOT (init root tok)) \<noteq> CHR ''/''"
    using rstrip_no_trailing [of "''/''" root] by (simp add: init_def)
  have b: "root0 = [] \<or> last root0 \<noteq> CHR ''/'' \<Longrightarrow>
        API_ROOT (init (root0 @ replicate k CHR ''/'') tok) = root0"
    using rstrip_replicate [of root0 "CHR ''/''" k] by (simp add: init_def)
  have g: "self (snd (get e r i fk fv s)) = self s"
    by (simp add: get_def Let_def self_send)
  have p: "self (snd (post e r d s)) = self s"
    by (simp add: post_def Let_def self_send)
  have u: "self (snd (put e r d i s)) = self s"
    by (simp add: put_def Let_def self_send)
  have dl: "self (snd (delete e r i s)) = self s"
    by (simp add: delete_def Let_def self_send)
  from a n b g p u dl show ?thesis by blast
qed

theorem configuration_read_only_witness:
  "API_ROOT (init (''http://h/api'' @ replicate 3 CHR ''/'') (Some ''tok'')) = ''http://h/api''
   \<and> ACCESS_STRING (init (''http://h/api'' @ replicate 3 CHR ''/'') (Some ''tok'')) = Some ''tok''
   \<and> self (snd (get (mock 200 ''[]'' (Inr (JArr []))) ''users'' None None None
                   (fresh (init ''http://h/api///'' (Some ''tok'')))))
       = init ''http://h/api///'' (Some ''tok'')
   \<and> self (snd (post (mock 500 ''boom'' (Inl ''Expecting value'')) ''users'' 0
                   (fresh (init ''http://h/api///'' (Some ''tok'')))))
       = init ''http://h/api///'' (Some ''tok'')"
proof -
  have l: "last ''http://h/api'' \<noteq> CHR ''/''" by simp
  have c: "API_ROOT (init (''http://h/api'' @ replicate 3 CHR ''/'') (Some ''tok'')) = ''http://h/api''
           \<and> ACCESS_STRING (init (''http://h/api'' @ replicate 3 CHR ''/'') (Some ''tok'')) = Some ''tok''"
    using l configuration_read_only [where ?root0.0 = "''http://h/api''" and k = 3
        and root = "''http://h/api'' @ replicate 3 CHR ''/''" and tok = "Some ''tok''"]
    by blast
  have f: "self (fresh (init ''http://h/api///'' (Some ''tok''))) = init ''http://h/api///'' (Some ''tok'')"
    by (simp add: fresh_def)
  have g: "self (snd (get (mock 200 ''[]'' (Inr (JArr []))) ''users'' None None None
                   (fresh (init ''http://h/api///'' (Some ''tok'')))))
           = self (fresh (init ''http://h/api///'' (Some ''tok'')))"
    using configuration_read_only [where e = "mock 200 ''[]'' (Inr (JArr []))" and r = "''users''"
        and i = None and fk = None and fv = None
        and s = "fresh (init ''http://h/api///'' (Some ''tok''))"]
    by blast
  have p: "self (snd (post (mock 500 ''boom'' (Inl ''Expecting value'')) ''users'' 0
                   (fresh (init ''http://h/api///'' (Some ''tok'')))))
           = self (fresh (init ''http://h/api///'' (Some ''tok'')))"
    using configuration_read_only [where e = "mock 500 ''boom'' (Inl ''Expecting value'')"
        and r = "''users''" and d = 0
        and s = "fresh (init ''http://h/api///'' (Some ''tok''))"]
    by blast
  from c f g p show ?thesis by simp
qed

text \<open>
  C9. When \<^verbatim>\<open>filter_key\<close> or \<^verbatim>\<open>filter_value\<close> is \<^verbatim>\<open>None\<close> or the empty string,
  \<^verbatim>\<open>get\<close> behaves exactly as a call without any filter: the URL it requests is the one
  built with no query parameters.
\<close>

theorem filter_dropped:
  assumes "fk = None \<or> fk = Some [] \<or> fv = None \<or> fv = Some []"
  shows "get e r i fk fv s = get e r i None None s
         \<and> req_url (last (wire (snd (get e r i fk fv s)))) = build_url (self s) r i None"
proof -
  from assms have "\<not> (truthy fk \<and> truthy fv)" by auto
  then have "filter_params fk fv = None" by (simp add: filter_params_def)
  then show ?thesis by (simp add: get_def Let_def last_wire_send filter_params_def)
qed

theorem filter_dropped_witness:
  "req_url (last (wire (snd (get (mock 200 ''[]'' (Inr (JArr []))) ''users'' None
                               (Some ''status'') (Some []) (fresh (init ''http://h/api'' None))))))
     = ''http://h/api/users''
   \<and> req_url (last (wire (snd (get (mock 200 ''[]'' (Inr (JArr []))) ''users'' None
                               None (Some ''open'') (fresh (init ''http://h/api'' None))))))
     = ''http://h/api/users''"
proof -
  have u: "build_url (self (fresh (init ''http://h/api'' None))) ''users'' None None
             = ''http://h/api/users''"
    by (simp add: fresh_def init_def build_url_def strip_def lstrip_def rstrip_def)
  have a: "req_url (last (wire (snd (get (mock 200 ''[]'' (Inr (JArr []))) ''users'' None
                               (Some ''status'') (Some []) (fresh (init ''http://h/api'' None))))))
     = build_url (self (fresh (init ''http://h/api'' None))) ''users'' None None"
    using filter_dropped [where fk = "Some ''status''" and fv = "Some []"
        and e = "mock 200 ''[]'' (Inr (JArr []))" and r = "''users''" and i = None
        and s = "fresh (init ''http://h/api'' None)"]
    by blast
  have b: "req_url (last (wire (snd (get (mock 200 ''[]'' (Inr (JArr []))) ''users'' None
                               None (Some ''open'') (fresh (init ''http://h/api'' None))))))
     = build_url (self (fresh (init ''http://h/api'' None))) ''users'' None None"
    using filter_dropped [where fk = None and fv = "Some ''open''"
        and e = "mock 200 ''[]'' (Inr (JArr []))" and r = "''users''" and i = None
        and s = "fresh (init ''http://h/api'' None)"]
    by blast
  from u a b show ?thesis by simp
qed

lemma heap_post:
  "heap (snd (post e r d s))
     = (if heap s d ''id'' = None
        then (heap s)(d := (heap s d)(''id'' \<mapsto> JStr (uuid_create e))) else heap s)"
  by (simp add: post_def Let_def heap_send)

text \<open>
  C10. When the caller's \<^verbatim>\<open>data_obj\<close> has no \<^verbatim>\<open>id\<close> key, \<^verbatim>\<open>post\<close> writes the generated
  id into that very object: after the call, whatever its outcome, the object holds the
  \<^verbatim>\<open>id\<close> entry, its other entries are as before, and no other object has changed.
\<close>

theorem post_injects_id_in_place:
  assumes "heap s d ''id'' = None"
  shows "heap (snd (post e r d s)) d = (heap s d)(''id'' \<mapsto> JStr (uuid_create e))
         \<and> heap (snd (post e r d s)) d ''id'' = Some (JStr (uuid_create e))
         \<and> (\<forall>k. k \<noteq> ''id'' \<longrightarrow> heap (snd (post e r d s)) d k = heap s d k)
         \<and> (\<forall>a. a \<noteq> d \<longrightarrow> heap (snd (post e r d s)) a = heap s a)"
  using assms by (simp add: heap_post)

theorem post_injects_id_in_place_witness:
  "fst (post (mock 200 ''{}'' (Inr (JObj []))) ''users'' 0 named_x) = Inr (JObj [])
   \<and> heap (snd (post (mock 200 ''{}'' (Inr (JObj []))) ''users'' 0 named_x)) 0 ''id''
       = Some (JStr ''123e4567-e89b-42d3-a456-426614174000'')
   \<and> heap (snd (post (mock 200 ''{}'' (Inr (JObj []))) ''users'' 0 named_x)) 0 ''name''
       = Some (JStr ''x'')
   \<and> fst (post (mock 500 ''boom'' (Inl ''Expecting value'')) ''users'' 0 named_x)
       = Inl (ValueError ''POST request failed with status 500: boom'')
   \<and> heap (snd (post (mock 500 ''boom'' (Inl ''Expecting value'')) ''users'' 0 named_x)) 0 ''id''
       = Some (JStr ''123e4567-e89b-42d3-a456-426614174000'')
   \<and> heap (snd (post (mock 500 ''boom'' (Inl ''Expecting value'')) ''users'' 0 named_x)) 0 ''name''
       = Some (JStr ''x'')"
proof -
  have h: "heap named_x 0 ''id'' = None" by (simp add: named_x_def)
  have n: "heap named_x 0 ''name'' = Some (JStr ''x'')" by (simp add: named_x_def)
  have s5: "str_int 500 = ''500''" by (simp add: str_int_def digit_char_def)
  have ok: "fst (post (mock 200 ''{}'' (Inr (JObj []))) ''users'' 0 named_x) = Inr (JObj [])"
    by (simp add: post_def Let_def send_def handle_reply_def mock_def)
  have ko: "fst (post (mock 500 ''boom'' (Inl ''Expecting value'')) ''users'' 0 named_x)
       = Inl (ValueError ''POST request failed with status 500: boom'')"
    by (simp add: post_def Let_def send_def handle_reply_def mock_def s5)
  have u1: "uuid_create (mock 200 ''{}'' (Inr (JObj []))) = ''123e4567-e89b-42d3-a456-426614174000''"
    by (simp add: mock_def)
  have u2: "uuid_create (mock 500 ''boom'' (Inl ''Expecting value'')) = ''123e4567-e89b-42d3-a456-426614174000''"
    by (simp add: mock_def)
  note a = post_injects_id_in_place [OF h, of "mock 200 ''{}'' (Inr (JObj []))" "''users''"]
  note b = post_injects_id_in_place [OF h, of "mock 500 ''boom'' (Inl ''Expecting value'')" "''users''"]
  have a1: "heap (snd (post (mock 200 ''{}'' (Inr (JObj []))) ''users'' 0 named_x)) 0 ''id''
       = Some (JStr ''123e4567-e89b-42d3-a456-426614174000'')"
    using a u1 by simp
  have a2: "heap (snd (post (mock 200 ''{}'' (Inr (JObj []))) ''users'' 0 named_x)) 0 ''name''
       = Some (JStr ''x'')"
    using a n by simp
  have b1: "heap (snd (post (mock 500 ''boom'' (Inl ''Expecting value'')) ''users'' 0 named_x)) 0 ''id''
       = Some (JStr ''123e4567-e89b-42d3-a456-426614174000'')"
    using b u2 by simp
  have b2: "heap (snd (post (mock 500 ''boom'' (Inl ''Expecting value'')) ''users'' 0 named_x)) 0 ''name''
       = Some (JStr ''x'')"
    using b n by simp
  from ok ko a1 a2 b1 b2 show ?thesis by simp
qed

subsection \<open>The URL\<close>

lemma mem_dropWhile_other:
  "c \<notin> set chars \<Longrightarrow> c \<in> set (dropWhile (\<lambda>x. x \<in> set chars) s) \<longleftrightarrow> c \<in> set s"
  by (induction s) auto

lemma mem_lstrip: "c \<notin> set chars \<Longrightarrow> c \<in> set (lstrip chars s) \<longleftrightarrow> c \<in> set s"
  by (simp add: lstrip_def mem_dropWhile_other)

lemma mem_rstrip: "c \<notin> set chars \<Longrightarrow> c \<in> set (rstrip chars s) \<longleftrightarrow> c \<in> set s"
  by (simp add: rstrip_def mem_dropWhile_other)

lemma mem_strip: "c \<notin> set chars \<Longrightarrow> c \<in> set (strip chars s) \<longleftrightarrow> c \<in> set s"
  by (simp add: strip_def mem_lstrip mem_rstrip)

lemma build_url_no_token:
  assumes "\<not> truthy (ACCESS_STRING c)"
  shows "build_url c r i q
         = API_ROOT c @ ''/'' @ strip ''/'' r
           @ (if truthy i then ''/'' @ the i else [])
           @ (case q of None \<Rightarrow> [] | Some p \<Rightarrow> if p \<noteq> [] then ''?'' @ urlencode p else [])"
  using assms by (simp add: build_url_def Let_def split: option.splits)



lemma build_url_prefix: "prefix (API_ROOT c @ ''/'' @ strip ''/'' r) (build_url c r i q)"
  by (simp add: build_url_def Let_def split: option.splits)

lemma url_query_None:
  "url_query u = None \<longleftrightarrow> CHR ''?'' \<notin> set (takeWhile (\<lambda>c. c \<noteq> CHR ''#'') u)"
proof -
  have "(case dropWhile (\<lambda>c. c \<noteq> CHR ''?'') p of [] \<Rightarrow> None | _ # q \<Rightarrow> Some q) = None
          \<longleftrightarrow> CHR ''?'' \<notin> set p" for p :: string
    by (induction p) simp_all
  then show ?thesis by (simp add: url_query_def)
qed


lemma url_query_no_mark: "CHR ''?'' \<notin> set u \<Longrightarrow> url_query u = None"
  using set_takeWhileD [of "CHR ''?''" "\<lambda>c. c \<noteq> CHR ''#''" u] by (auto simp: url_query_None)



















text \<open>
  C3. Whatever the API root and the resource, the URL starts with the root without its
  trailing slashes, a slash, and the resource without its leading and trailing slashes, and
  is exactly that when there is no item id, no filter and no token. Written out: for a
  root \<open>root0\<close> followed by \<open>k\<close> slashes and a resource \<open>core\<close> between \<open>m\<close> and \<open>n\<close> slashes
  (\<open>root0\<close> not ending and \<open>core\<close> not starting or ending with a slash), the base path is
  \<open>root0 @ ''/'' @ core\<close>.
\<close>

theorem base_path:
  "prefix (rstrip ''/'' root @ ''/'' @ strip ''/'' resource)
          (build_url (init root tok) resource item q)
   \<and> build_url (init root None) resource None None
       = rstrip ''/'' root @ ''/'' @ strip ''/'' resource
   \<and> ((root0 = [] \<or> last root0 \<noteq> CHR ''/'')
        \<and> (core = [] \<or> hd core \<noteq> CHR ''/'' \<and> last core \<noteq> CHR ''/'') \<longrightarrow>
        build_url (init (root0 @ replicate k CHR ''/'') None)
                  (replicate m CHR ''/'' @ core @ replicate n CHR ''/'') None None
          = root0 @ ''/'' @ core
        \<and> prefix (root0 @ ''/'' @ core)
             (build_url (init (root0 @ replicate k CHR ''/'') tok)
                        (replicate m CHR ''/'' @ core @ replicate n CHR ''/'') item q))"
proof -
  have a: "prefix (rstrip ''/'' root @ ''/'' @ strip ''/'' resource)
                  (build_url (init root tok) resource item q)" for root resource tok
    using build_url_prefix [of "init root tok" resource item q] by (simp add: init_def)
  have b: "build_url (init root None) resource None None
             = rstrip ''/'' root @ ''/'' @ strip ''/'' resource" for root resource
    by (simp add: build_url_def Let_def init_def)
  have c: "build_url (init (root0 @ replicate k CHR ''/'') None)
                  (replicate m CHR ''/'' @ core @ replicate n CHR ''/'') None None
          = root0 @ ''/'' @ core
        \<and> prefix (root0 @ ''/'' @ core)
             (build_url (init (root0 @ replicate k CHR ''/'') tok)
                        (replicate m CHR ''/'' @ core @ replicate n CHR ''/'') item q)"
    if r: "root0 = [] \<or> last root0 \<noteq> CHR ''/''"
      and s: "core = [] \<or> hd core \<noteq> CHR ''/'' \<and> last core \<noteq> CHR ''/''"
  proof -
    have r': "rstrip ''/'' (root0 @ replicate k CHR ''/'') = root0"
      using r by (rule rstrip_replicate)
    have s': "strip ''/'' (replicate m CHR ''/'' @ core @ replicate n CHR ''/'') = core"
      using s by (rule strip_replicate)
    have "prefix (root0 @ ''/'' @ core)
             (build_url (init (root0 @ replicate k CHR ''/'') tok)
                        (replicate m CHR ''/'' @ core @ replicate n CHR ''/'') item q)"
      using a [of "root0 @ replicate k CHR ''/''" "replicate m CHR ''/'' @ core @ replicate n CHR ''/''" tok]
      by (simp only: r' s')
    moreover have "build_url (init (root0 @ replicate k CHR ''/'') None)
                  (replicate m CHR ''/'' @ core @ replicate n CHR ''/'') None None
          = root0 @ ''/'' @ core"
      using b [of "root0 @ replicate k CHR ''/''" "replicate m CHR ''/'' @ core @ replicate n CHR ''/''"]
      by (simp only: r' s')
    ultimately show ?thesis by blast
  qed
  from a b c show ?thesis by blast
qed

theorem base_path_witness:
  "build_url (init ''http://h/api//'' None) ''//users/'' None None = ''http://h/api/users''
   \<and> prefix ''http://h/api/users''
        (build_url (init ''http://h/api//'' (Some ''t'')) ''//users/'' (Some ''42'')
           (Some [(''status'', ''open'')]))"
proof -
  have r: "''http://h/api//'' = ''http://h/api'' @ replicate 2 CHR ''/''"
    by (simp add: numeral_2_eq_2)
  have s: "''//users/'' = replicate 2 CHR ''/'' @ ''users'' @ replicate 1 CHR ''/''"
    by (simp add: numeral_2_eq_2)
  have h: "(''http://h/api'' = [] \<or> last ''http://h/api'' \<noteq> CHR ''/'')
           \<and> (''users'' = [] \<or> hd ''users'' \<noteq> CHR ''/'' \<and> last ''users'' \<noteq> CHR ''/'')"
    by simp
  have "build_url (init (''http://h/api'' @ replicate 2 CHR ''/'') None)
                  (replicate 2 CHR ''/'' @ ''users'' @ replicate 1 CHR ''/'') None None
          = ''http://h/api'' @ ''/'' @ ''users''
        \<and> prefix (''http://h/api'' @ ''/'' @ ''users'')
             (build_url (init (''http://h/api'' @ replicate 2 CHR ''/'') (Some ''t''))
                        (replicate 2 CHR ''/'' @ ''users'' @ replicate 1 CHR ''/'') (Some ''42'')
                        (Some [(''status'', ''open'')]))"
    using h base_path [where ?root0.0 = "''http://h/api''" and core = "''users''" and k = 2
        and m = 2 and n = 1 and tok = "Some ''t''" and item = "Some ''42''"
        and q = "Some [(''status'', ''open'')]"]
    by blast
  then show ?thesis
    unfolding r [symmetric] s [symmetric] by simp
qed

text \<open>
  C4 (as stated, refuted). The claim reads: the token is joined with \<^verbatim>\<open>&\<close> if a query
  string already exists in the URL and with \<^verbatim>\<open>?\<close> otherwise. Line 33 looks for a \<^verbatim>\<open>?\<close>
  anywhere in the URL built so far, and the resource is written into the URL as it is. For
  the resource \<^verbatim>\<open>a#b?c\<close> the URL built so far is \<^verbatim>\<open>http://h/api/a#b?c\<close>: its \<^verbatim>\<open>?\<close> lies
  in the fragment, so it has no query string, and yet the token is joined with \<^verbatim>\<open>&\<close>.
\<close>

theorem token_separator_counterexample:
  "build_url (init ''http://h/api'' None) ''a#b?c'' None None = ''http://h/api/a#b?c''
   \<and> url_query (build_url (init ''http://h/api'' None) ''a#b?c'' None None) = None
   \<and> build_url (init ''http://h/api'' (Some ''t'')) ''a#b?c'' None None
       = ''http://h/api/a#b?c&token=t''"
  by (simp add: build_url_def Let_def init_def strip_def lstrip_def rstrip_def url_query_def)



subsection \<open>Filters, item ids and the request body\<close>

lemma path_has_no_query:
  assumes "\<not> truthy (ACCESS_STRING c)"
    and "CHR ''?'' \<notin> set (API_ROOT c)"
    and "CHR ''?'' \<notin> set r"
    and "\<forall>x. i = Some x \<longrightarrow> CHR ''?'' \<notin> set x"
  shows "CHR ''?'' \<notin> set (build_url c r i None)"
proof -
  have "CHR ''?'' \<notin> set (strip ''/'' r)"
    using assms(3) by (simp add: mem_strip)
  moreover have "CHR ''?'' \<notin> set (if truthy i then ''/'' @ the i else [])"
    using assms(4) by (cases i) auto
  ultimately show ?thesis
    using assms(1,2) by (simp add: build_url_no_token)
qed


lemma put_url:
  "req_url (last (wire (snd (put e r d i s)))) = build_url (self s) r i None"
  by (simp add: put_def Let_def last_wire_send)

lemma delete_url:
  "req_url (last (wire (snd (delete e r i s)))) = build_url (self s) r i None"
  by (simp add: delete_def Let_def last_wire_send)





text \<open>
  C7 (as stated, refuted). The claim reads: for every \<^verbatim>\<open>put\<close> with a non-empty item id
  and no token, the URL has no query string. The item id is written into the URL as it
  is: the item id \<^verbatim>\<open>4?2\<close> gives a URL whose query string is \<^verbatim>\<open>2\<close>.
\<close>

theorem put_query_string_counterexample:
  "ACCESS_STRING (self (fresh (init ''http://h/api'' None))) = None
   \<and> req_url (last (wire (snd (put (mock 200 ''[]'' (Inr (JArr []))) ''users'' 0 (Some ''4?2'')
                                 (fresh (init ''http://h/api'' None))))))
       = ''http://h/api/users/4?2''
   \<and> url_query (req_url (last (wire (snd (put (mock 200 ''[]'' (Inr (JArr []))) ''users'' 0
                                 (Some ''4?2'') (fresh (init ''http://h/api'' None)))))))
       = Some ''2''"
proof -
  have a: "ACCESS_STRING (self (fresh (init ''http://h/api'' None))) = None"
    by (simp add: fresh_def init_def)
  have u: "req_url (last (wire (snd (put (mock 200 ''[]'' (Inr (JArr []))) ''users'' 0 (Some ''4?2'')
                                 (fresh (init ''http://h/api'' None))))))
       = ''http://h/api/users/4?2''"
    by (simp add: put_url fresh_def init_def build_url_def Let_def strip_def lstrip_def rstrip_def)
  have q: "url_query ''http://h/api/users/4?2'' = Some ''2''"
    by (simp add: url_query_def)
  from a u q show ?thesis by simp
qed

text \<open>
  C7 (amended). For every \<^verbatim>\<open>put\<close> with a non-empty item id and no token, the URL is
  exactly the API root, a slash, the stripped resource, a slash and the item id, so it
  ends in a slash and the item id; it has no query string when the API root, the
  resource and the item id hold no \<^verbatim>\<open>?\<close>. \<^verbatim>\<open>put\<close> and \<^verbatim>\<open>delete\<close> always build their URL
  without filter parameters.
\<close>

theorem put_delete_url:
  "(item \<noteq> [] \<and> \<not> truthy (ACCESS_STRING (self s)) \<longrightarrow>
      req_url (last (wire (snd (put e r d (Some item) s))))
        = API_ROOT (self s) @ ''/'' @ strip ''/'' r @ ''/'' @ item
      \<and> suffix (''/'' @ item) (req_url (last (wire (snd (put e r d (Some item) s))))))
   \<and> (item \<noteq> [] \<and> \<not> truthy (ACCESS_STRING (self s))
        \<and> CHR ''?'' \<notin> set (API_ROOT (self s)) \<and> CHR ''?'' \<notin> set r \<and> CHR ''?'' \<notin> set item \<longrightarrow>
      url_query (req_url (last (wire (snd (put e r d (Some item) s))))) = None)
   \<and> req_url (last (wire (snd (put e r d i s)))) = build_url (self s) r i None
   \<and> req_url (last (wire (snd (delete e r i s)))) = build_url (self s) r i None"
proof -
  have a: "req_url (last (wire (snd (put e r d (Some item) s))))
        = API_ROOT (self s) @ ''/'' @ strip ''/'' r @ ''/'' @ item"
    if "item \<noteq> []" "\<not> truthy (ACCESS_STRING (self s))"
    using that by (simp add: put_url build_url_no_token)
  have b: "suffix (''/'' @ item) (req_url (last (wire (snd (put e r d (Some item) s)))))"
    if "item \<noteq> []" "\<not> truthy (ACCESS_STRING (self s))"
    unfolding a [OF that] suffix_def by (metis append.assoc)
  have c: "url_query (req_url (last (wire (snd (put e r d (Some item) s))))) = None"
    if "item \<noteq> []" "\<not> truthy (ACCESS_STRING (self s))"
      "CHR ''?'' \<notin> set (API_ROOT (self s))" "CHR ''?'' \<notin> set r" "CHR ''?'' \<notin> set item"
  proof -
    have "\<forall>x. Some item = Some x \<longrightarrow> CHR ''?'' \<notin> set x" using that(5) by simp
    with that(2-4) have "CHR ''?'' \<notin> set (build_url (self s) r (Some item) None)"
      by (rule path_has_no_query)
    then show ?thesis by (simp add: put_url url_query_no_mark)
  qed
  from a b c put_url [of e r d i s] delete_url [of e r i s] show ?thesis by blast
qed

theorem put_delete_url_witness:
  "req_url (last (wire (snd (put (mock 200 ''[]'' (Inr (JArr []))) ''users'' 0 (Some ''42'')
                               (fresh (init ''http://h/api'' None))))))
     = ''http://h/api/users/42''
   \<and> url_query (req_url (last (wire (snd (put (mock 200 ''[]'' (Inr (JArr []))) ''users'' 0
                               (Some ''42'') (fresh (init ''http://h/api'' None))))))) = None"
proof -
  have a: "\<not> truthy (ACCESS_STRING (self (fresh (init ''http://h/api'' None))))"
    by (simp add: fresh_def init_def)
  have b: "CHR ''?'' \<notin> set (API_ROOT (self (fresh (init ''http://h/api'' None))))"
    by (simp add: fresh_def init_def rstrip_def)
  have c: "CHR ''?'' \<notin> set ''users'' \<and> CHR ''?'' \<notin> set ''42'' \<and> ''42'' \<noteq> []" by simp
  have p: "API_ROOT (self (fresh (init ''http://h/api'' None))) @ ''/'' @ strip ''/'' ''users''
             @ ''/'' @ ''42'' = ''http://h/api/users/42''"
    by (simp add: fresh_def init_def strip_def lstrip_def rstrip_def)
  note t = put_delete_url [where s = "fresh (init ''http://h/api'' None)" and r = "''users''"
      and item = "''42''" and e = "mock 200 ''[]'' (Inr (JArr []))" and d = 0]
  have u: "req_url (last (wire (snd (put (mock 200 ''[]'' (Inr (JArr []))) ''users'' 0 (Some ''42'')
                               (fresh (init ''http://h/api'' None))))))
     = API_ROOT (self (fresh (init ''http://h/api'' None))) @ ''/'' @ strip ''/'' ''users''
             @ ''/'' @ ''42''"
    using t a c by blast
  have q: "url_query (req_url (last (wire (snd (put (mock 200 ''[]'' (Inr (JArr []))) ''users'' 0
                               (Some ''42'') (fresh (init ''http://h/api'' None))))))) = None"
    using t a b c by blast
  from u q show ?thesis by (simp only: p)
qed

text \<open>What \<^verbatim>\<open>post\<close> sends: the caller's mapping with the generated id added when it had
  none, and the caller's mapping as it is, with no id generated, when it had one.\<close>

lemma post_sends_generated_id:
  assumes "heap s d ''id'' = None"
  shows "req_json (last (wire (snd (post e r d s))))
         = Some ((heap s d)(''id'' \<mapsto> JStr (uuid_create e)))"
  using assms by (simp add: post_def Let_def last_wire_send)

lemma post_keeps_caller_id:
  assumes "heap s d ''id'' = Some v"
  shows "req_json (last (wire (snd (post e r d s)))) = Some (heap s d)
         \<and> heap (snd (post e r d s)) = heap s"
  using assms by (simp add: post_def Let_def last_wire_send heap_send)

end
